theory Spec2Isabelle
  imports Main "HOL-Library.Sublist" "HOL-Library.Log_Nat"
begin

section \<open>Workout data as the screens consume it\<close>

text \<open>
  The screens receive workouts from the API as plain objects.  Only the fields read by the
  derived-state computations are kept.  The field \<open>workout_date\<close> is a date string in the
  source; every use wraps it in \<open>new Date(...)\<close>, so the model stores the time value of
  that \<open>Date\<close> object (milliseconds since the epoch), with \<open>None\<close> for an Invalid Date,
  whose time value is NaN.
\<close>

record exercise =
  name :: string

record workout =
  workout_name :: string
  workout_date :: "int option"
  exercises :: "exercise list"

section \<open>HomeScreen: calcStreak\<close>

subsection \<open>Local time\<close>

definition msPerDay :: int where
  "msPerDay = 86400000"

text \<open>
  The device's time zone, as ECMA-262 sees it: the offset from UTC in force at an instant,
  and the offset by which a local time value is read back as an instant (for a local time
  that a clock change skips or repeats, the offset in force before the change).  Both are
  supplied by the host; nothing is assumed about them.  \<open>LocalTime\<close> and \<open>UTC\<close> are the
  abstract operations of the standard.  Time values are integers; they stay far inside
  the range of a \<open>Date\<close>, so the standard's final \<open>TimeClip\<close> changes nothing.
\<close>

record zone =
  offset_at :: "int \<Rightarrow> int"
  offset_for_local :: "int \<Rightarrow> int"

definition LocalTime :: "zone \<Rightarrow> int \<Rightarrow> int" where
  "LocalTime z t = t + offset_at z t"

definition UTC :: "zone \<Rightarrow> int \<Rightarrow> int" where
  "UTC z t = t - offset_for_local z t"

text \<open>
  \<open>d.setHours(0,0,0,0)\<close> takes the local time of \<open>d\<close>, keeps its day and sets the time
  within the day to zero, and reads the result back as an instant.  Where a clock change
  skips local midnight, the result is the first instant of the day, which is not midnight.
\<close>

definition setHours0 :: "zone \<Rightarrow> int \<Rightarrow> int" where
  "setHours0 z t = UTC z (msPerDay * (LocalTime z t div msPerDay))"

text \<open>
  \<open>cursor.setDate(cursor.getDate()-1)\<close> takes the local time of the cursor, moves it to
  the previous day at the same time within the day, and reads the result back as an
  instant.  The cursor is not normalised again after the step.
\<close>

definition setDate_back :: "zone \<Rightarrow> int \<Rightarrow> int" where
  "setDate_back z t = UTC z (LocalTime z t - msPerDay)"

text \<open>A zone without clock changes.\<close>

definition fixed_zone :: "int \<Rightarrow> zone" where
  "fixed_zone k = \<lparr>offset_at = (\<lambda>t. k), offset_for_local = (\<lambda>t. k)\<rparr>"

text \<open>
  A zone whose clocks go from 24:00 straight to 01:00: UTC-4 before 6 September 2026,
  04:00 UTC, and UTC-3 from then on, as in America/Santiago.  The local times from 00:00
  to 01:00 of that day are skipped and are read with the earlier offset.
\<close>

definition santiago :: zone where
  "santiago =
     \<lparr>offset_at = (\<lambda>t. if t < 1788667200000 then - 14400000 else - 10800000),
      offset_for_local =
        (\<lambda>t. if t < 1788667200000 - 10800000 then - 14400000 else - 10800000)\<rparr>"

subsection \<open>The streak\<close>

text \<open>
  The value of \<open>d.getTime()\<close> after \<open>const d = new Date(w.workout_date); d.setHours(0,0,0,0)\<close>;
  an Invalid Date stays invalid and is equal to nothing.
\<close>

definition day_of :: "zone \<Rightarrow> workout \<Rightarrow> int option" where
  "day_of z w = map_option (setHours0 z) (workout_date w)"

text \<open>The \<open>for (const w of sorted)\<close> loop, with the mutable \<open>cursor\<close> and \<open>days\<close> threaded.\<close>

fun streak_loop :: "zone \<Rightarrow> int \<Rightarrow> nat \<Rightarrow> workout list \<Rightarrow> nat" where
  "streak_loop z cursor days [] = days"
| "streak_loop z cursor days (w # ws) =
     (if day_of z w = Some cursor
      then streak_loop z (setDate_back z cursor) (Suc days) ws
      else streak_loop z cursor days ws)"

text \<open>
  \<open>[...list].sort((a,b) => new Date(b.workout_date) - new Date(a.workout_date))\<close>.  When
  every date is valid the comparator is consistent and the stable sort puts the list in
  descending order of time value.  An Invalid Date makes the comparator return NaN, which
  the sort reads as ``equal''; the comparator is then not consistent and the order of the
  result is left to the engine: it is some permutation of the list, here the one that
  sorts the positions by the ranks \<open>engine\<close> gives them.
\<close>

definition sort_desc :: "(nat \<Rightarrow> int) \<Rightarrow> workout list \<Rightarrow> workout list" where
  "sort_desc engine list =
     (if list_all (\<lambda>w. workout_date w \<noteq> None) list
      then sort_key (\<lambda>w. case workout_date w of Some t \<Rightarrow> - t | None \<Rightarrow> 0) list
      else map (\<lambda>i. list ! i) (sort_key engine [0..<length list]))"

text \<open>
  \<open>calcStreak\<close> with the clock reading \<open>now\<close> (the time value of \<open>new Date()\<close>) as an
  argument; the result is the number handed to \<open>setStreak\<close>.
\<close>

definition calcStreak :: "zone \<Rightarrow> (nat \<Rightarrow> int) \<Rightarrow> int \<Rightarrow> workout list \<Rightarrow> nat" where
  "calcStreak z engine now list =
     (if length list = 0 then 0
      else (let sorted = sort_desc engine list;
                today = setHours0 z now;
                first = day_of z (sorted ! 0)
            in if first = Some today
               then streak_loop z (setDate_back z today) (Suc 0) sorted
               else streak_loop z today 0 sorted))"

text \<open>The normalised days on which a list has an entry with a valid date.\<close>

definition workout_days :: "zone \<Rightarrow> workout list \<Rightarrow> int set" where
  "workout_days z list = {d. Some d \<in> day_of z ` set list}"

definition valid_dates :: "workout list \<Rightarrow> bool" where
  "valid_dates list = list_all (\<lambda>w. workout_date w \<noteq> None) list"

section \<open>WorkoutScreen: the search filter\<close>

text \<open>
  Strings are lists of 8-bit characters; the string operations are modelled on ASCII.
  \<open>String.prototype.trim\<close> removes leading and trailing white space and line terminators,
  \<open>toLowerCase\<close> maps \<open>A\<close>..\<open>Z\<close> to \<open>a\<close>..\<open>z\<close>, and \<open>s.includes(q)\<close> holds when \<open>q\<close>
  occurs in \<open>s\<close> as a contiguous block.
\<close>

definition isWhiteSpace :: "char \<Rightarrow> bool" where
  "isWhiteSpace c \<longleftrightarrow>
     (of_char c :: nat) \<in> {0x09, 0x0A, 0x0B, 0x0C, 0x0D, 0x20}"

definition trim :: "string \<Rightarrow> string" where
  "trim s = rev (dropWhile isWhiteSpace (rev (dropWhile isWhiteSpace s)))"

definition lower_char :: "char \<Rightarrow> char" where
  "lower_char c =
     (let n = (of_char c :: nat)
      in if 65 \<le> n \<and> n \<le> 90 then char_of (n + 32) else c)"

definition toLowerCase :: "string \<Rightarrow> string" where
  "toLowerCase s = map lower_char s"

definition str_includes :: "string \<Rightarrow> string \<Rightarrow> bool" where
  "str_includes s q \<longleftrightarrow> sublist q s"

text \<open>
  The predicate passed to \<open>workouts.filter\<close>.  \<open>toLocaleDateString\<close> depends on the
  device locale and zone, so the formatter from time values (valid or not) to strings is an
  argument.  As in the source, the workout name and the exercise names are lower-cased,
  the formatted date is not.
\<close>

definition matches :: "(int option \<Rightarrow> string) \<Rightarrow> string \<Rightarrow> workout \<Rightarrow> bool" where
  "matches toLocaleDateString query w \<longleftrightarrow>
     str_includes (toLowerCase (workout_name w)) query \<or>
     str_includes (toLocaleDateString (workout_date w)) query \<or>
     list_ex (\<lambda>ex. str_includes (toLowerCase (name ex)) query) (exercises w)"

text \<open>The value the effect stores with \<open>setFilteredWorkouts\<close>.\<close>

definition filteredWorkouts :: "(int option \<Rightarrow> string) \<Rightarrow> string \<Rightarrow> workout list \<Rightarrow> workout list" where
  "filteredWorkouts toLocaleDateString searchQuery workouts =
     (if trim searchQuery = [] then workouts
      else (let query = toLowerCase searchQuery
            in filter (matches toLocaleDateString query) workouts))"

text \<open>
  What the specification calls a case-insensitive match of a field against the query:
  the query occurs in the field once both are lower-cased.
\<close>

definition contains_ci :: "string \<Rightarrow> string \<Rightarrow> bool" where
  "contains_ci field q \<longleftrightarrow> str_includes (toLowerCase field) (toLowerCase q)"

definition item_contains :: "(int option \<Rightarrow> string) \<Rightarrow> string \<Rightarrow> workout \<Rightarrow> bool" where
  "item_contains toLocaleDateString q w \<longleftrightarrow>
     contains_ci (workout_name w) q \<or>
     contains_ci (toLocaleDateString (workout_date w)) q \<or>
     list_ex (\<lambda>ex. contains_ci (name ex) q) (exercises w)"

section \<open>AuthContext: the session and its collaborators\<close>

text \<open>
  An awaited call either resolves with a value or rejects; a rejection is what
  \<open>try\<close>/\<open>catch\<close>/\<open>finally\<close> see as a thrown error.
\<close>

datatype 'a promise = Resolved 'a | Rejected

text \<open>
  A JavaScript value that is \<open>null\<close>/\<open>undefined\<close> or a string is an optional string;
  \<open>if (v)\<close> and \<open>v || d\<close> treat \<open>null\<close> and the empty string as false.
\<close>

definition truthy :: "string option \<Rightarrow> bool" where
  "truthy v = (case v of None \<Rightarrow> False | Some s \<Rightarrow> s \<noteq> [])"

definition or_else :: "string option \<Rightarrow> string \<Rightarrow> string" where
  "or_else v d = (case v of None \<Rightarrow> d | Some s \<Rightarrow> if s \<noteq> [] then s else d)"

subsection \<open>AsyncStorage\<close>

text \<open>
  The durable key-value store is a library outside the repository.  Its contents are a
  map from keys to strings.  Each call is given its outcome: a read either succeeds or
  rejects; a write either succeeds or rejects, leaving the store in a state supplied with
  the fault (which covers a removal or a write that failed half-way).
\<close>

type_synonym storage = "string \<rightharpoonup> string"

datatype write_io = Write_ok | Write_fails storage

definition getItem :: "bool \<Rightarrow> string \<Rightarrow> storage \<Rightarrow> string option promise" where
  "getItem readable key st = (if readable then Resolved (st key) else Rejected)"

definition multiGet :: "bool \<Rightarrow> string list \<Rightarrow> storage \<Rightarrow> (string \<times> string option) list promise" where
  "multiGet readable keys st =
     (if readable then Resolved (map (\<lambda>k. (k, st k)) keys) else Rejected)"

definition multiSet :: "write_io \<Rightarrow> (string \<times> string) list \<Rightarrow> storage \<Rightarrow> unit promise \<times> storage" where
  "multiSet io kvs st =
     (case io of
        Write_ok \<Rightarrow> (Resolved (), fold (\<lambda>(k, v) m. m(k \<mapsto> v)) kvs st)
      | Write_fails st' \<Rightarrow> (Rejected, st'))"

definition multiRemove :: "write_io \<Rightarrow> string list \<Rightarrow> storage \<Rightarrow> unit promise \<times> storage" where
  "multiRemove io keys st =
     (case io of
        Write_ok \<Rightarrow> (Resolved (), fold (\<lambda>k m. m(k := None)) keys st)
      | Write_fails st' \<Rightarrow> (Rejected, st'))"

subsection \<open>The request interceptor\<close>

text \<open>
  Of an axios request configuration only \<open>config.headers.Authorization\<close> is touched; the
  rest of the configuration is the extension part of the record.
\<close>

record config =
  Authorization :: "string option"

definition request_interceptor :: "bool \<Rightarrow> storage \<Rightarrow> 'a config_scheme \<Rightarrow> 'a config_scheme promise" where
  "request_interceptor readable st config =
     (case getItem readable ''auth_token'' st of
        Rejected \<Rightarrow> Rejected
      | Resolved stored \<Rightarrow>
          Resolved (if truthy stored
                    then config\<lparr>Authorization := Some (''Bearer '' @ the stored)\<rparr>
                    else config))"

subsection \<open>The provider state\<close>

record user =
  id' :: int
  username :: string
  email :: string

text \<open>
  The four \<open>useState\<close> cells of \<open>AuthProvider\<close>, together with the two pieces of
  process-wide state its helpers write: the contents of AsyncStorage and
  \<open>api.defaults.headers.common.Authorization\<close>.
\<close>

record app =
  user :: "user option"
  token :: "string option"
  loading :: bool
  error :: string
  storage :: storage
  defaults_Authorization :: "string option"

definition initial :: "storage \<Rightarrow> app" where
  "initial st =
     \<lparr>user = None, token = None, loading = True, error = [],
      storage = st, defaults_Authorization = None\<rparr>"

subsection \<open>Boot: restoring the session\<close>

text \<open>
  \<open>JSON.parse\<close> is an argument: it rejects on malformed text (a \<open>SyntaxError\<close>) and
  otherwise resolves with the parsed value, \<open>None\<close> standing for \<open>null\<close>.  The effect has
  \<open>try\<close>/\<open>finally\<close> and no \<open>catch\<close>: a rejection leaves through the \<open>finally\<close> block.
\<close>

definition boot :: "(string \<Rightarrow> user option promise) \<Rightarrow> bool \<Rightarrow> app \<Rightarrow> unit promise \<times> app" where
  "boot JSON_parse readable s =
     (case multiGet readable [''auth_token'', ''user''] (storage s) of
        Resolved [(_, storedToken), (_, userJson)] \<Rightarrow>
          (let s1 = (if truthy storedToken then s\<lparr>token := storedToken\<rparr> else s)
           in if truthy userJson
              then (case JSON_parse (the userJson) of
                      Resolved u \<Rightarrow> (Resolved (), s1\<lparr>user := u, loading := False\<rparr>)
                    | Rejected \<Rightarrow> (Rejected, s1\<lparr>loading := False\<rparr>))
              else (Resolved (), s1\<lparr>loading := False\<rparr>))
      | _ \<Rightarrow> (Rejected, s\<lparr>loading := False\<rparr>))"

subsection \<open>login\<close>

text \<open>
  \<open>axios.post\<close> resolves with the response body or rejects with an error \<open>e\<close>; of the
  error only \<open>e.response?.data?.error\<close> is read, which is absent when there was no
  response, no body or no \<open>error\<close> field.
\<close>

datatype login_data = Login_data string int string

datatype 'a axios_result = Response 'a | Request_failed "string option"

datatype login_result = Success | Failed string

text \<open>
  \<open>post\<close> is the authentication endpoint as seen through
  \<open>axios.post(`${API_URL}/auth/login`, { email, password })\<close>, \<open>JSON_stringify\<close> the
  serialiser, \<open>io\<close> the outcome of the \<open>multiSet\<close> call.  The three components of
  \<open>Login_data\<close> are \<open>access_token\<close>, \<open>user_id\<close> and \<open>username\<close>.
\<close>

definition login ::
  "(string \<Rightarrow> string \<Rightarrow> login_data axios_result) \<Rightarrow> (user \<Rightarrow> string) \<Rightarrow> write_io \<Rightarrow>
   string \<Rightarrow> string \<Rightarrow> app \<Rightarrow> login_result \<times> app" where
  "login post JSON_stringify io email_arg password s =
     (let s1 = s\<lparr>error := [], loading := True\<rparr>
      in case post email_arg password of
           Request_failed e \<Rightarrow>
             (let msg = or_else e ''Login failed''
              in (Failed msg, s1\<lparr>error := msg, loading := False\<rparr>))
         | Response (Login_data access_token user_id username_arg) \<Rightarrow>
             (let u = \<lparr>id' = user_id, username = username_arg, email = email_arg\<rparr>
              in case multiSet io [(''auth_token'', access_token), (''user'', JSON_stringify u)]
                        (storage s1) of
                   (Rejected, st') \<Rightarrow>
                     (let msg = or_else None ''Login failed''
                      in (Failed msg, s1\<lparr>storage := st', error := msg, loading := False\<rparr>))
                 | (Resolved _, st') \<Rightarrow>
                     (Success,
                      s1\<lparr>storage := st',
                         defaults_Authorization := Some (''Bearer '' @ access_token),
                         token := Some access_token,
                         user := Some u,
                         loading := False\<rparr>)))"

subsection \<open>logout\<close>

text \<open>
  \<open>logout\<close> has \<open>try\<close>/\<open>finally\<close> and no \<open>catch\<close>: when \<open>multiRemove\<close> rejects, the three
  statements after it are skipped, \<open>finally\<close> clears the loading flag and the rejection
  reaches the caller.
\<close>

definition logout :: "write_io \<Rightarrow> app \<Rightarrow> unit promise \<times> app" where
  "logout io s =
     (let s1 = s\<lparr>loading := True\<rparr>
      in case multiRemove io [''auth_token'', ''user''] (storage s1) of
           (Rejected, st') \<Rightarrow> (Rejected, s1\<lparr>storage := st', loading := False\<rparr>)
         | (Resolved _, st') \<Rightarrow>
             (Resolved (),
              s1\<lparr>storage := st',
                 defaults_Authorization := None,
                 token := None,
                 user := None,
                 loading := False\<rparr>))"

section \<open>CreateWorkoutScreen: calculateProgress\<close>

subsection \<open>JavaScript numbers\<close>

text \<open>
  A JavaScript number is an IEEE 754 binary64 value.  A finite one is a rational, and it is
  represented by that rational.  \<open>binary64\<close> rounds a rational to the nearest
  representable value, ties to the even significand: 53 significant bits for normal
  values, a fixed spacing of \<open>2 powi (- 1074)\<close> below \<open>2 powi (- 1022)\<close>.  Overflow to
  infinity, NaN and the sign of zero are not represented; the progress values stay
  between 0 and 1.  A decimal literal denotes the rounding of its decimal value, and \<open>+\<close>
  the rounding of the exact sum.
\<close>

definition round_half_even :: "rat \<Rightarrow> int" where
  "round_half_even x =
     (let n = \<lfloor>x\<rfloor>; r = x - of_int n
      in if r < 1 / 2 then n else if 1 / 2 < r then n + 1 else if even n then n else n + 1)"

text \<open>The exponent \<open>e\<close> with \<open>2 powi e \<le> \<bar>x\<bar> < 2 powi (e + 1)\<close>, for \<open>x \<noteq> 0\<close>.\<close>

definition binade :: "rat \<Rightarrow> int" where
  "binade x =
     (let (p, q) = quotient_of \<bar>x\<bar>; e = bitlen p - bitlen q
      in if 2 powi e \<le> \<bar>x\<bar> then e else e - 1)"

definition binary64 :: "rat \<Rightarrow> rat" where
  "binary64 x =
     (if x = 0 then 0
      else (let ulp = 2 powi (max (binade x) (- 1022) - 52)
            in of_int (round_half_even (x / ulp)) * ulp))"

definition js_add :: "rat \<Rightarrow> rat \<Rightarrow> rat" where
  "js_add a b = binary64 (a + b)"

subsection \<open>The two versions of calculateProgress\<close>

text \<open>
  The screen state read by \<open>calculateProgress\<close>: the workout name (a string), the selected
  template (\<open>null\<close> or a template id) and the exercises being edited, each with its sets;
  \<open>weight\<close> and \<open>reps\<close> are the texts of two input fields.
\<close>

record workout_set =
  weight :: string
  reps :: string

record draft_exercise =
  sets :: "workout_set list"

text \<open>
  The repository holds two versions of CreateWorkoutScreen.  The first has four steps of
  \<open>0.25\<close> each.
\<close>

definition calculateProgress4 :: "string \<Rightarrow> string option \<Rightarrow> draft_exercise list \<Rightarrow> rat" where
  "calculateProgress4 workoutName selectedTemplate exs =
     (let progress = 0;
          progress = (if workoutName \<noteq> []
                      then js_add progress (binary64 (25 / 100)) else progress);
          progress = (if truthy selectedTemplate
                      then js_add progress (binary64 (25 / 100)) else progress);
          progress = (if 0 < length exs
                      then js_add progress (binary64 (25 / 100)) else progress);
          progress = (if list_ex (\<lambda>e. list_ex (\<lambda>s. weight s \<noteq> [] \<and> reps s \<noteq> []) (sets e)) exs
                      then js_add progress (binary64 (25 / 100)) else progress)
      in progress)"

text \<open>The second has three steps, of \<open>0.33\<close>, \<open>0.33\<close> and \<open>0.34\<close>.\<close>

definition calculateProgress3 :: "string \<Rightarrow> string option \<Rightarrow> draft_exercise list \<Rightarrow> rat" where
  "calculateProgress3 workoutName selectedTemplate exs =
     (let progress = 0;
          progress = (if workoutName \<noteq> []
                      then js_add progress (binary64 (33 / 100)) else progress);
          progress = (if truthy selectedTemplate
                      then js_add progress (binary64 (33 / 100)) else progress);
          progress = (if 0 < length exs
                      then js_add progress (binary64 (34 / 100)) else progress)
      in progress)"

text \<open>The number of conditions that hold.\<close>

definition satisfied :: "bool list \<Rightarrow> nat" where
  "satisfied cs = length (filter id cs)"

section \<open>Properties of calcStreak\<close>

subsection \<open>The loop and the sort\<close>

lemma msPerDay_pos: "0 < msPerDay"
  by (simp add: msPerDay_def)

lemma streak_loop_ge: "days \<le> streak_loop z cursor days ws"
proof (induction ws arbitrary: cursor days)
  case Nil
  show ?case by simp
next
  case (Cons w ws)
  have "days \<le> streak_loop z cursor days ws"
    and "Suc days \<le> streak_loop z (setDate_back z cursor) (Suc days) ws"
    using Cons.IH by blast+
  then show ?case by simp
qed

lemma streak_loop_le: "streak_loop z cursor days ws \<le> days + length ws"
proof (induction ws arbitrary: cursor days)
  case Nil
  show ?case by simp
next
  case (Cons w ws)
  have "streak_loop z cursor days ws \<le> days + length ws"
    and "streak_loop z (setDate_back z cursor) (Suc days) ws \<le> Suc days + length ws"
    using Cons.IH by blast+
  then show ?case by simp
qed

lemma workout_days_Cons:
  "workout_days z (w # ws) =
     (case day_of z w of None \<Rightarrow> workout_days z ws | Some d \<Rightarrow> insert d (workout_days z ws))"
  by (auto simp: workout_days_def split: option.splits)

lemma workout_days_Nil: "workout_days z [] = {}"
  by (simp add: workout_days_def)

lemma streak_loop_hit:
  "cursor \<in> workout_days z ws \<Longrightarrow> Suc days \<le> streak_loop z cursor days ws"
proof (induction ws)
  case Nil
  then show ?case by (simp add: workout_days_Nil)
next
  case (Cons w ws)
  show ?case
  proof (cases "day_of z w = Some cursor")
    case True
    then show ?thesis
      using streak_loop_ge [of "Suc days" z "setDate_back z cursor" ws] by simp
  next
    case False
    with Cons.prems have "cursor \<in> workout_days z ws"
      by (auto simp: workout_days_Cons split: option.splits)
    with Cons.IH False show ?thesis by simp
  qed
qed

lemma streak_loop_miss:
  "cursor \<notin> workout_days z ws \<Longrightarrow> streak_loop z cursor days ws = days"
  by (induction ws) (auto simp: workout_days_Cons split: option.splits)

lemma set_sort_desc: "set (sort_desc engine list) = set list"
proof (cases "list_all (\<lambda>w. workout_date w \<noteq> None) list")
  case True
  then show ?thesis by (simp add: sort_desc_def)
next
  case False
  have "set (map (\<lambda>i. list ! i) (sort_key engine [0..<length list]))
          = (\<lambda>i. list ! i) ` {0..<length list}"
    by simp
  also have "\<dots> = set list"
    by (auto simp: in_set_conv_nth)
  finally show ?thesis
    using False by (simp add: sort_desc_def)
qed

lemma length_sort_desc: "length (sort_desc engine list) = length list"
  by (simp add: sort_desc_def)

lemma workout_days_sort_desc: "workout_days z (sort_desc engine list) = workout_days z list"
  by (simp add: workout_days_def set_sort_desc)

lemma sort_desc_Nil_iff: "sort_desc engine list = [] \<longleftrightarrow> list = []"
  using length_sort_desc [of engine list] by (metis length_0_conv)

text \<open>
  \<open>calcStreak\<close> by cases on the sorted list; \<open>sorted[0]\<close> is its head.
\<close>

lemma calcStreak_cases:
  "calcStreak z engine now list =
     (case sort_desc engine list of
        [] \<Rightarrow> 0
      | w0 # rest \<Rightarrow>
          if day_of z w0 = Some (setHours0 z now)
          then streak_loop z (setDate_back z (setHours0 z now)) (Suc 0) (w0 # rest)
          else streak_loop z (setHours0 z now) 0 (w0 # rest))"
proof (cases "sort_desc engine list")
  case Nil
  then have "list = []" by (simp add: sort_desc_Nil_iff)
  with Nil show ?thesis by (simp add: calcStreak_def)
next
  case (Cons w0 rest)
  then have "list \<noteq> []" using sort_desc_Nil_iff [of engine list] by auto
  with Cons show ?thesis by (simp add: calcStreak_def Let_def)
qed

subsection \<open>Results that hold in every zone\<close>

text \<open>
  Claim C3, as stated, fails: the code never starts the count from yesterday.  With a
  single workout dated yesterday (clock at 10:00 on day 3, workout at 02:00 on day 2, UTC)
  the list is not empty and its most recent entry is exactly one day back, yet the streak
  is zero.
\<close>

theorem calcStreak_yesterday_counterexample:
  "calcStreak (fixed_zone 0) (\<lambda>i. 0) 295200000 [\<lparr>workout_name = ''Legs'', workout_date = Some 180000000, exercises = []\<rparr>] = 0 \<and>
   day_of (fixed_zone 0) \<lparr>workout_name = ''Legs'', workout_date = Some 180000000, exercises = []\<rparr> = Some (setHours0 (fixed_zone 0) 295200000 - msPerDay) \<and>
   setHours0 (fixed_zone 0) 295200000 \<notin> workout_days (fixed_zone 0) [\<lparr>workout_name = ''Legs'', workout_date = Some 180000000, exercises = []\<rparr>]"
  by (simp add: calcStreak_def sort_desc_def workout_days_def day_of_def setHours0_def
        LocalTime_def UTC_def fixed_zone_def msPerDay_def)

text \<open>
  Claim C3, amended.  The count always starts from today: for every workout list the
  streak is zero exactly when no entry is dated today (in particular when the most recent
  entry is yesterday), and it is positive as soon as one entry is dated today.  This holds
  in every zone, for every order the sort may produce and with invalid dates in the list.
\<close>

theorem calcStreak_zero_iff_no_entry_today:
  "(setHours0 z now \<notin> workout_days z list \<longrightarrow> calcStreak z engine now list = 0) \<and>
   (setHours0 z now \<in> workout_days z list \<longrightarrow> 0 < calcStreak z engine now list)"
proof (intro conjI impI)
  assume absent: "setHours0 z now \<notin> workout_days z list"
  show "calcStreak z engine now list = 0"
  proof (cases "sort_desc engine list")
    case Nil
    then show ?thesis by (simp add: calcStreak_cases)
  next
    case (Cons w0 rest)
    have notin: "setHours0 z now \<notin> workout_days z (w0 # rest)"
      using absent workout_days_sort_desc [of z engine list] Cons by simp
    then have "day_of z w0 \<noteq> Some (setHours0 z now)"
      by (auto simp: workout_days_Cons)
    moreover have "streak_loop z (setHours0 z now) 0 (w0 # rest) = 0"
      using notin by (rule streak_loop_miss)
    ultimately show ?thesis
      using Cons by (simp add: calcStreak_cases)
  qed
next
  assume mem: "setHours0 z now \<in> workout_days z list"
  show "0 < calcStreak z engine now list"
  proof (cases "sort_desc engine list")
    case Nil
    then have "list = []" by (simp add: sort_desc_Nil_iff)
    with mem show ?thesis by (simp add: workout_days_Nil)
  next
    case (Cons w0 rest)
    show ?thesis
    proof (cases "day_of z w0 = Some (setHours0 z now)")
      case True
      have "Suc 0 \<le> streak_loop z (setDate_back z (setHours0 z now)) (Suc 0) (w0 # rest)"
        by (rule streak_loop_ge)
      then show ?thesis
        using Cons True by (simp add: calcStreak_cases)
    next
      case False
      have "setHours0 z now \<in> workout_days z (w0 # rest)"
        using mem workout_days_sort_desc [of z engine list] Cons by simp
      then have "Suc 0 \<le> streak_loop z (setHours0 z now) 0 (w0 # rest)"
        by (rule streak_loop_hit)
      then show ?thesis
        using Cons False by (simp add: calcStreak_cases)
    qed
  qed
qed

theorem calcStreak_zero_iff_no_entry_today_witness:
  "setHours0 (fixed_zone 0) 295200000 \<notin> workout_days (fixed_zone 0) [\<lparr>workout_name = ''Legs'', workout_date = Some 180000000, exercises = []\<rparr>] \<and>
   calcStreak (fixed_zone 0) (\<lambda>i. 0) 295200000 [\<lparr>workout_name = ''Legs'', workout_date = Some 180000000, exercises = []\<rparr>] = 0 \<and>
   setHours0 (fixed_zone 0) 295200000 \<in> workout_days (fixed_zone 0) [\<lparr>workout_name = ''Push'', workout_date = Some 262800000, exercises = []\<rparr>] \<and>
   0 < calcStreak (fixed_zone 0) (\<lambda>i. 0) 295200000 [\<lparr>workout_name = ''Push'', workout_date = Some 262800000, exercises = []\<rparr>]"
proof -
  have absent: "setHours0 (fixed_zone 0) 295200000 \<notin> workout_days (fixed_zone 0) [\<lparr>workout_name = ''Legs'', workout_date = Some 180000000, exercises = []\<rparr>]"
    by (simp add: workout_days_def day_of_def setHours0_def LocalTime_def UTC_def
          fixed_zone_def msPerDay_def)
  have present: "setHours0 (fixed_zone 0) 295200000 \<in> workout_days (fixed_zone 0) [\<lparr>workout_name = ''Push'', workout_date = Some 262800000, exercises = []\<rparr>]"
    by (simp add: workout_days_def day_of_def setHours0_def LocalTime_def UTC_def
          fixed_zone_def msPerDay_def)
  show ?thesis
    using absent present
      calcStreak_zero_iff_no_entry_today [of "fixed_zone 0" 295200000 "[\<lparr>workout_name = ''Legs'', workout_date = Some 180000000, exercises = []\<rparr>]" "\<lambda>i. 0"]
      calcStreak_zero_iff_no_entry_today [of "fixed_zone 0" 295200000 "[\<lparr>workout_name = ''Push'', workout_date = Some 262800000, exercises = []\<rparr>]" "\<lambda>i. 0"]
    by blast
qed

text \<open>
  Once the cursor has moved off today, the entry counted by the initial today-check is
  not counted again by the loop, and every other entry is counted at most once.
\<close>

lemma calcStreak_bound:
  assumes moved: "setDate_back z (setHours0 z now) \<noteq> setHours0 z now"
  shows "calcStreak z engine now list \<le> length list"
proof (cases "sort_desc engine list")
  case Nil
  then show ?thesis by (simp add: calcStreak_cases)
next
  case (Cons w0 rest)
  have len: "length list = Suc (length rest)"
    using length_sort_desc [of engine list] Cons by simp
  show ?thesis
  proof (cases "day_of z w0 = Some (setHours0 z now)")
    case True
    then have "day_of z w0 \<noteq> Some (setDate_back z (setHours0 z now))"
      using moved by simp
    then have "streak_loop z (setDate_back z (setHours0 z now)) (Suc 0) (w0 # rest)
                 = streak_loop z (setDate_back z (setHours0 z now)) (Suc 0) rest"
      by simp
    also have "\<dots> \<le> Suc 0 + length rest"
      by (rule streak_loop_le)
    finally show ?thesis
      using Cons True len by (simp add: calcStreak_cases)
  next
    case False
    have "streak_loop z (setHours0 z now) 0 (w0 # rest) \<le> 0 + length (w0 # rest)"
      by (rule streak_loop_le)
    then show ?thesis
      using Cons False len by (simp add: calcStreak_cases)
  qed
qed

lemma setDate_back_fixed: "setDate_back (fixed_zone k) t = t - msPerDay"
  by (simp add: setDate_back_def LocalTime_def UTC_def fixed_zone_def)

text \<open>
  Claim C10.  For every workout list the streak is at most the number of entries (and,
  being a natural number, at least zero): each entry adds to the count at most once, and
  the entry counted by the initial today-check is not counted again by the loop.  This
  holds in every zone in which stepping back one day from today's normalised instant gives
  another instant, whatever the order of the sorted list and with invalid dates in it; in
  particular it holds without condition in every zone with a fixed offset.  (The step
  returns the same instant only where the zone skips the whole preceding calendar day.)
\<close>

theorem calcStreak_le_length:
  "(setDate_back z (setHours0 z now) \<noteq> setHours0 z now \<longrightarrow>
      calcStreak z engine now list \<le> length list) \<and>
   calcStreak (fixed_zone tz) engine now list \<le> length list"
proof -
  have "setDate_back (fixed_zone tz) (setHours0 (fixed_zone tz) now) \<noteq> setHours0 (fixed_zone tz) now"
    using msPerDay_pos by (simp add: setDate_back_fixed)
  then show ?thesis
    using calcStreak_bound by blast
qed

theorem calcStreak_le_length_witness:
  "setDate_back santiago (setHours0 santiago 1788786000000) \<noteq> setHours0 santiago 1788786000000 \<and>
   calcStreak santiago (\<lambda>i. 0) 1788786000000 [\<lparr>workout_name = ''Push'', workout_date = Some 1788778800000, exercises = []\<rparr>, \<lparr>workout_name = ''Legs'', workout_date = Some 1788728400000, exercises = []\<rparr>, \<lparr>workout_name = ''Pull'', workout_date = Some 1788645600000, exercises = []\<rparr>] \<le> length [\<lparr>workout_name = ''Push'', workout_date = Some 1788778800000, exercises = []\<rparr>, \<lparr>workout_name = ''Legs'', workout_date = Some 1788728400000, exercises = []\<rparr>, \<lparr>workout_name = ''Pull'', workout_date = Some 1788645600000, exercises = []\<rparr>]"
proof -
  have moved:
    "setDate_back santiago (setHours0 santiago 1788786000000) \<noteq> setHours0 santiago 1788786000000"
    by (simp add: setHours0_def setDate_back_def LocalTime_def UTC_def santiago_def msPerDay_def)
  show ?thesis
    using moved
      calcStreak_le_length [of santiago 1788786000000 "\<lambda>i. 0" "[\<lparr>workout_name = ''Push'', workout_date = Some 1788778800000, exercises = []\<rparr>, \<lparr>workout_name = ''Legs'', workout_date = Some 1788728400000, exercises = []\<rparr>, \<lparr>workout_name = ''Pull'', workout_date = Some 1788645600000, exercises = []\<rparr>]" 0]
    by blast
qed

subsection \<open>Fixed-offset zones\<close>

lemma setHours0_fixed: "setHours0 (fixed_zone k) t = t - (t + k) mod msPerDay"
proof -
  have "msPerDay * ((t + k) div msPerDay) = (t + k) - (t + k) mod msPerDay"
    by (rule minus_mod_eq_mult_div [symmetric])
  then show ?thesis
    by (simp add: setHours0_def LocalTime_def UTC_def fixed_zone_def)
qed

lemma setHours0_fixed_div: "setHours0 (fixed_zone k) t = msPerDay * ((t + k) div msPerDay) - k"
  by (simp add: setHours0_def LocalTime_def UTC_def fixed_zone_def)

lemma setHours0_fixed_mono:
  assumes "s \<le> t"
  shows "setHours0 (fixed_zone k) s \<le> setHours0 (fixed_zone k) t"
proof -
  from assms have "(s + k) div msPerDay \<le> (t + k) div msPerDay"
    using msPerDay_pos by (intro zdiv_mono1) simp_all
  then have "msPerDay * ((s + k) div msPerDay) \<le> msPerDay * ((t + k) div msPerDay)"
    using msPerDay_pos by (simp add: mult_left_mono)
  then show ?thesis
    by (simp add: setHours0_fixed_div)
qed

lemma workout_days_valid:
  assumes "valid_dates ws"
  shows "workout_days z ws = (\<lambda>w. setHours0 z (the (workout_date w))) ` set ws"
proof -
  have "day_of z w = Some (setHours0 z (the (workout_date w)))" if "w \<in> set ws" for w
    using assms that by (auto simp: valid_dates_def list_all_iff day_of_def)
  then show ?thesis
    unfolding workout_days_def by force
qed

text \<open>
  With valid dates in descending order and a cursor that steps back exactly one day, the
  loop counts the run of consecutive days that starts at the cursor.
\<close>

lemma streak_loop_run:
  assumes "valid_dates ws"
    and "sorted_wrt (\<ge>) (map (\<lambda>w. setHours0 (fixed_zone tz) (the (workout_date w))) ws)"
    and "\<And>i. i < k \<Longrightarrow> cursor - int i * msPerDay \<in> workout_days (fixed_zone tz) ws"
    and "cursor - int k * msPerDay \<notin> workout_days (fixed_zone tz) ws"
  shows "streak_loop (fixed_zone tz) cursor days ws = days + k"
  using assms
proof (induction ws arbitrary: cursor days k)
  case Nil
  have "k = 0"
  proof (rule ccontr)
    assume "k \<noteq> 0"
    then have "0 < k" by simp
    from Nil(3) [OF this] show False by (simp add: workout_days_Nil)
  qed
  then show ?case by simp
next
  case (Cons w ws)
  let ?z = "fixed_zone tz"
  let ?d = "setHours0 ?z (the (workout_date w))"
  have valid: "valid_dates ws" and day_w: "day_of ?z w = Some ?d"
    using Cons.prems(1) by (auto simp: valid_dates_def day_of_def)
  have srt: "sorted_wrt (\<ge>) (map (\<lambda>w. setHours0 ?z (the (workout_date w))) ws)"
    using Cons.prems(2) by simp
  have below: "x \<le> ?d" if "x \<in> workout_days ?z ws" for x
    using Cons.prems(2) that by (auto simp: workout_days_valid [OF valid])
  have split: "workout_days ?z (w # ws) = insert ?d (workout_days ?z ws)"
    by (simp add: workout_days_Cons day_w)
  show ?case
  proof (cases "?d = cursor")
    case True
    have "k \<noteq> 0"
    proof
      assume "k = 0"
      with Cons.prems(4) True show False by (simp add: split)
    qed
    then obtain k' where k: "k = Suc k'" by (cases k) auto
    have run': "cursor - msPerDay - int i * msPerDay \<in> workout_days ?z ws" if "i < k'" for i
    proof -
      have eq: "cursor - int (Suc i) * msPerDay = cursor - msPerDay - int i * msPerDay"
        by (simp add: algebra_simps)
      have "Suc i < k" using that k by simp
      then have mem: "cursor - int (Suc i) * msPerDay \<in> workout_days ?z (w # ws)"
        by (rule Cons.prems(3))
      have "0 < int (Suc i) * msPerDay"
        using msPerDay_pos by simp
      then have "cursor - int (Suc i) * msPerDay \<noteq> ?d"
        using True by linarith
      with mem have "cursor - int (Suc i) * msPerDay \<in> workout_days ?z ws"
        unfolding split by blast
      then show ?thesis unfolding eq .
    qed
    have stop': "cursor - msPerDay - int k' * msPerDay \<notin> workout_days ?z ws"
    proof -
      have eq: "cursor - int k * msPerDay = cursor - msPerDay - int k' * msPerDay"
        unfolding k by (simp add: algebra_simps)
      have "cursor - int k * msPerDay \<notin> workout_days ?z ws"
        using Cons.prems(4) unfolding split by blast
      then show ?thesis unfolding eq .
    qed
    have "streak_loop ?z (cursor - msPerDay) (Suc days) ws = Suc days + k'"
      by (rule Cons.IH [OF valid srt run' stop'])
    with True k day_w show ?thesis
      by (simp add: setDate_back_fixed)
  next
    case False
    have run': "cursor - int i * msPerDay \<in> workout_days ?z ws" if "i < k" for i
    proof -
      have mem: "cursor - int i * msPerDay \<in> workout_days ?z (w # ws)"
        using Cons.prems(3) [OF that] .
      have "cursor \<in> workout_days ?z (w # ws)"
        using Cons.prems(3) [of 0] that by simp
      with False have "cursor \<in> workout_days ?z ws" by (simp add: split)
      then have "cursor \<le> ?d" by (rule below)
      moreover have "cursor - int i * msPerDay \<le> cursor"
        using msPerDay_pos by simp
      ultimately have "cursor - int i * msPerDay \<noteq> ?d"
        using False by linarith
      with mem show ?thesis by (simp add: split)
    qed
    have stop': "cursor - int k * msPerDay \<notin> workout_days ?z ws"
      using Cons.prems(4) by (simp add: split)
    have "streak_loop ?z cursor days ws = days + k"
      by (rule Cons.IH [OF valid srt run' stop'])
    with False day_w show ?thesis by simp
  qed
qed

lemma valid_dates_sort_desc:
  "valid_dates list \<Longrightarrow> valid_dates (sort_desc engine list)"
  by (simp add: valid_dates_def list_all_iff set_sort_desc)

lemma sorted_days_desc:
  assumes "valid_dates list"
  shows "sorted_wrt (\<ge>)
           (map (\<lambda>w. setHours0 (fixed_zone tz) (the (workout_date w))) (sort_desc engine list))"
proof -
  let ?key = "\<lambda>w. case workout_date w of Some t \<Rightarrow> - t | None \<Rightarrow> 0"
  have sd: "sort_desc engine list = sort_key ?key list"
    using assms by (simp add: sort_desc_def valid_dates_def)
  have "sorted (map ?key (sort_key ?key list))"
    by (rule sorted_sort_key)
  then have "sorted_wrt (\<lambda>a b. ?key a \<le> ?key b) (sort_key ?key list)"
    by (simp add: sorted_wrt_map)
  moreover have "setHours0 (fixed_zone tz) (the (workout_date b))
                   \<le> setHours0 (fixed_zone tz) (the (workout_date a))"
    if "a \<in> set (sort_key ?key list)" "b \<in> set (sort_key ?key list)" "?key a \<le> ?key b" for a b
  proof -
    from that assms have "workout_date a \<noteq> None" "workout_date b \<noteq> None"
      by (simp_all add: valid_dates_def list_all_iff)
    then obtain s t where "workout_date a = Some s" "workout_date b = Some t"
      by blast
    with that(3) show ?thesis
      by (simp add: setHours0_fixed_mono)
  qed
  ultimately have "sorted_wrt (\<lambda>a b. setHours0 (fixed_zone tz) (the (workout_date b))
                     \<le> setHours0 (fixed_zone tz) (the (workout_date a))) (sort_key ?key list)"
    by (rule sorted_wrt_mono_rel [rotated]) 
  then show ?thesis
    by (simp add: sorted_wrt_map sd)
qed

text \<open>
  In a fixed-offset zone and with valid dates, \<open>calcStreak\<close> is the length of the run of
  consecutive calendar days that starts today and goes backwards.
\<close>

lemma calcStreak_run:
  assumes valid: "valid_dates list"
    and run: "\<And>i. i < k \<Longrightarrow>
                setHours0 (fixed_zone tz) now - int i * msPerDay \<in> workout_days (fixed_zone tz) list"
    and stop: "setHours0 (fixed_zone tz) now - int k * msPerDay \<notin> workout_days (fixed_zone tz) list"
  shows "calcStreak (fixed_zone tz) engine now list = k"
proof (cases "sort_desc engine list")
  case Nil
  then have empty: "list = []" by (simp add: sort_desc_Nil_iff)
  have "k = 0"
  proof (rule ccontr)
    assume "k \<noteq> 0"
    then have "0 < k" by simp
    from run [OF this] empty show False by (simp add: workout_days_Nil)
  qed
  with Nil show ?thesis by (simp add: calcStreak_cases)
next
  case (Cons w0 rest)
  let ?z = "fixed_zone tz"
  let ?sorted = "sort_desc engine list"
  let ?today = "setHours0 ?z now"
  note srt = sorted_days_desc [OF valid, of tz engine]
  note vs = valid_dates_sort_desc [OF valid, of engine]
  have days: "workout_days ?z ?sorted = workout_days ?z list"
    by (rule workout_days_sort_desc)
  show ?thesis
  proof (cases "day_of ?z w0 = Some ?today")
    case True
    have "?today \<in> workout_days ?z ?sorted"
      using True Cons by (simp add: workout_days_Cons)
    with stop days have "k \<noteq> 0" by (cases k) auto
    then obtain k' where k: "k = Suc k'" by (cases k) auto
    have run': "?today - msPerDay - int i * msPerDay \<in> workout_days ?z ?sorted" if "i < k'" for i
    proof -
      have eq: "?today - int (Suc i) * msPerDay = ?today - msPerDay - int i * msPerDay"
        by (simp add: algebra_simps)
      have "Suc i < k" using that k by simp
      then have "?today - int (Suc i) * msPerDay \<in> workout_days ?z list"
        by (rule run)
      then show ?thesis unfolding eq days .
    qed
    have stop': "?today - msPerDay - int k' * msPerDay \<notin> workout_days ?z ?sorted"
    proof -
      have eq: "?today - int k * msPerDay = ?today - msPerDay - int k' * msPerDay"
        unfolding k by (simp add: algebra_simps)
      show ?thesis using stop unfolding eq days .
    qed
    have "streak_loop ?z (?today - msPerDay) (Suc 0) ?sorted = Suc 0 + k'"
      by (rule streak_loop_run [OF vs srt run' stop'])
    with True Cons k show ?thesis
      by (simp add: calcStreak_cases setDate_back_fixed)
  next
    case False
    have "streak_loop ?z ?today 0 ?sorted = 0 + k"
      by (rule streak_loop_run [OF vs srt]) (simp_all add: days run stop)
    with False Cons show ?thesis by (simp add: calcStreak_cases)
  qed
qed

text \<open>
  In a fixed-offset zone and with valid dates the four values of the specification hold:
  0 for the empty list, 1 for a single entry dated today, 3 for entries today, yesterday
  and the day before with none three days back, 1 for an entry today and none yesterday.
\<close>

lemma calcStreak_fixed_zone_values:
  "calcStreak (fixed_zone tz) engine now [] = 0"
  "day_of (fixed_zone tz) w = Some (setHours0 (fixed_zone tz) now) \<Longrightarrow>
     calcStreak (fixed_zone tz) engine now [w] = 1"
  "valid_dates l3 \<Longrightarrow>
   setHours0 (fixed_zone tz) now \<in> workout_days (fixed_zone tz) l3 \<Longrightarrow>
   setHours0 (fixed_zone tz) now - msPerDay \<in> workout_days (fixed_zone tz) l3 \<Longrightarrow>
   setHours0 (fixed_zone tz) now - 2 * msPerDay \<in> workout_days (fixed_zone tz) l3 \<Longrightarrow>
   setHours0 (fixed_zone tz) now - 3 * msPerDay \<notin> workout_days (fixed_zone tz) l3 \<Longrightarrow>
     calcStreak (fixed_zone tz) engine now l3 = 3"
  "valid_dates l1 \<Longrightarrow>
   setHours0 (fixed_zone tz) now \<in> workout_days (fixed_zone tz) l1 \<Longrightarrow>
   setHours0 (fixed_zone tz) now - msPerDay \<notin> workout_days (fixed_zone tz) l1 \<Longrightarrow>
     calcStreak (fixed_zone tz) engine now l1 = 1"
proof -
  let ?z = "fixed_zone tz"
  let ?T = "setHours0 ?z now"
  show "calcStreak ?z engine now [] = 0"
    by (simp add: calcStreak_def)
next
  let ?z = "fixed_zone tz"
  let ?T = "setHours0 ?z now"
  assume today: "day_of ?z w = Some ?T"
  then have valid: "valid_dates [w]"
    by (auto simp: valid_dates_def day_of_def)
  have days: "workout_days ?z [w] = {?T}"
    using today by (simp add: workout_days_Cons workout_days_Nil)
  show "calcStreak ?z engine now [w] = 1"
  proof (rule calcStreak_run [OF valid])
    fix i :: nat
    assume "i < 1"
    then show "?T - int i * msPerDay \<in> workout_days ?z [w]"
      by (simp add: days)
  next
    show "?T - int 1 * msPerDay \<notin> workout_days ?z [w]"
      using msPerDay_pos by (simp add: days)
  qed
next
  let ?z = "fixed_zone tz"
  let ?T = "setHours0 ?z now"
  assume valid: "valid_dates l3"
    and d0: "?T \<in> workout_days ?z l3"
    and d1: "?T - msPerDay \<in> workout_days ?z l3"
    and d2: "?T - 2 * msPerDay \<in> workout_days ?z l3"
    and d3: "?T - 3 * msPerDay \<notin> workout_days ?z l3"
  show "calcStreak ?z engine now l3 = 3"
  proof (rule calcStreak_run [OF valid])
    fix i :: nat
    assume "i < 3"
    then consider "i = 0" | "i = 1" | "i = 2" by linarith
    then show "?T - int i * msPerDay \<in> workout_days ?z l3"
      using d0 d1 d2 by cases simp_all
  next
    show "?T - int 3 * msPerDay \<notin> workout_days ?z l3"
      using d3 by simp
  qed
next
  let ?z = "fixed_zone tz"
  let ?T = "setHours0 ?z now"
  assume valid: "valid_dates l1"
    and d0: "?T \<in> workout_days ?z l1"
    and d1: "?T - msPerDay \<notin> workout_days ?z l1"
  show "calcStreak ?z engine now l1 = 1"
  proof (rule calcStreak_run [OF valid])
    fix i :: nat
    assume "i < 1"
    then show "?T - int i * msPerDay \<in> workout_days ?z l1"
      using d0 by simp
  next
    show "?T - int 1 * msPerDay \<notin> workout_days ?z l1"
      using d1 by simp
  qed
qed

subsection \<open>A skipped midnight\<close>

text \<open>
  Claim C6 has the streak at 3 for entries on today, yesterday and the day before and
  nothing earlier.  The code gives 2 when yesterday's midnight is skipped by a clock
  change.  In the zone \<open>santiago\<close>, with the clock at 10:00 on Monday 7 September 2026
  and one workout on each of 7, 6 and 5 September (local days 20703, 20702 and 20701):
  the entry of the 6th is normalised to 01:00, the first instant of that day, and the
  cursor reaches it; the next step keeps 01:00 and lands on 01:00 of the 5th, while the
  entry of the 5th is normalised to 00:00, so the count stops at 2.
\<close>

theorem calcStreak_skipped_midnight:
  "map (\<lambda>t. LocalTime santiago t div msPerDay)
     [1788786000000, 1788778800000, 1788728400000, 1788645600000]
     = [20703, 20703, 20702, 20701] \<and>
   calcStreak santiago (\<lambda>i. 0) 1788786000000 [\<lparr>workout_name = ''Push'', workout_date = Some 1788778800000, exercises = []\<rparr>, \<lparr>workout_name = ''Legs'', workout_date = Some 1788728400000, exercises = []\<rparr>, \<lparr>workout_name = ''Pull'', workout_date = Some 1788645600000, exercises = []\<rparr>] = 2"
  by (simp add: calcStreak_def sort_desc_def day_of_def setHours0_def setDate_back_def
        LocalTime_def UTC_def santiago_def msPerDay_def)

section \<open>Properties of the search filter\<close>

lemma lower_char_idem: "lower_char (lower_char c) = lower_char c"
  by (simp add: lower_char_def Let_def)

lemma toLowerCase_idem: "toLowerCase (toLowerCase s) = toLowerCase s"
  by (simp add: toLowerCase_def lower_char_idem)

text \<open>
  The formatted date is compared without being lower-cased; a hit there is still a
  case-insensitive hit, because lower-casing both sides preserves an occurrence.
\<close>

lemma str_includes_lower:
  assumes "str_includes s (toLowerCase q)"
  shows "contains_ci s q"
proof -
  from assms have "sublist (toLowerCase q) s"
    by (simp add: str_includes_def)
  then have "sublist (map lower_char (toLowerCase q)) (map lower_char s)"
    by (rule map_mono_sublist)
  then have "sublist (toLowerCase (toLowerCase q)) (toLowerCase s)"
    by (simp add: toLowerCase_def)
  then show ?thesis
    by (simp add: toLowerCase_idem contains_ci_def str_includes_def)
qed

lemma matches_item_contains:
  "matches fmt (toLowerCase q) w \<Longrightarrow> item_contains fmt q w"
  unfolding matches_def item_contains_def
  by (auto simp: contains_ci_def list_ex_iff dest: str_includes_lower)

text \<open>
  Claim C7, as stated, fails for a query that is not empty but consists of white space
  only: the guard \<open>searchQuery.trim() === ''\<close> sends it down the branch that keeps the
  whole list.  For the query of one space, a workout named ``Legs'' with the exercise
  ``Squat'' and the formatted date ``1/1/1970'' is retained although no searchable field
  contains a space.
\<close>

theorem filteredWorkouts_blank_query_counterexample:
  "'' '' \<noteq> [] \<and>
   \<lparr>workout_name = ''Legs'', workout_date = Some 0, exercises = [\<lparr>name = ''Squat''\<rparr>]\<rparr> \<in> set (filteredWorkouts (\<lambda>t. ''1/1/1970'') '' '' [\<lparr>workout_name = ''Legs'', workout_date = Some 0, exercises = [\<lparr>name = ''Squat''\<rparr>]\<rparr>]) \<and>
   \<not> item_contains (\<lambda>t. ''1/1/1970'') '' '' \<lparr>workout_name = ''Legs'', workout_date = Some 0, exercises = [\<lparr>name = ''Squat''\<rparr>]\<rparr>"
  by code_simp

text \<open>
  Claim C7, amended.  For every workout list and every query that is not blank (not empty
  after trimming white space), every item retained by the filter contains the query
  case-insensitively in its name, its formatted date or one of its exercise names; the
  retained items are in input order; and a blank query (empty or white space only) returns
  the full list unchanged.
\<close>

theorem filteredWorkouts_sound:
  "(trim q \<noteq> [] \<longrightarrow> (\<forall>w \<in> set (filteredWorkouts fmt q ws). item_contains fmt q w)) \<and>
   subseq (filteredWorkouts fmt q ws) ws \<and>
   (trim q = [] \<longrightarrow> filteredWorkouts fmt q ws = ws)"
  by (simp add: filteredWorkouts_def Let_def matches_item_contains)

theorem filteredWorkouts_sound_witness:
  "trim ''SQ'' \<noteq> [] \<and>
   filteredWorkouts (\<lambda>t. if t = Some 0 then ''1/1/1970'' else ''1/2/1970'') ''SQ'' [\<lparr>workout_name = ''Push'', workout_date = Some 86400000, exercises = [\<lparr>name = ''Bench''\<rparr>]\<rparr>, \<lparr>workout_name = ''Legs'', workout_date = Some 0, exercises = [\<lparr>name = ''Squat''\<rparr>]\<rparr>] = [\<lparr>workout_name = ''Legs'', workout_date = Some 0, exercises = [\<lparr>name = ''Squat''\<rparr>]\<rparr>] \<and>
   item_contains (\<lambda>t. if t = Some 0 then ''1/1/1970'' else ''1/2/1970'') ''SQ'' \<lparr>workout_name = ''Legs'', workout_date = Some 0, exercises = [\<lparr>name = ''Squat''\<rparr>]\<rparr> \<and>
   subseq (filteredWorkouts (\<lambda>t. if t = Some 0 then ''1/1/1970'' else ''1/2/1970'') ''SQ'' [\<lparr>workout_name = ''Push'', workout_date = Some 86400000, exercises = [\<lparr>name = ''Bench''\<rparr>]\<rparr>, \<lparr>workout_name = ''Legs'', workout_date = Some 0, exercises = [\<lparr>name = ''Squat''\<rparr>]\<rparr>]) [\<lparr>workout_name = ''Push'', workout_date = Some 86400000, exercises = [\<lparr>name = ''Bench''\<rparr>]\<rparr>, \<lparr>workout_name = ''Legs'', workout_date = Some 0, exercises = [\<lparr>name = ''Squat''\<rparr>]\<rparr>] \<and>
   trim ''  '' = [] \<and>
   filteredWorkouts (\<lambda>t. if t = Some 0 then ''1/1/1970'' else ''1/2/1970'') ''  '' [\<lparr>workout_name = ''Push'', workout_date = Some 86400000, exercises = [\<lparr>name = ''Bench''\<rparr>]\<rparr>, \<lparr>workout_name = ''Legs'', workout_date = Some 0, exercises = [\<lparr>name = ''Squat''\<rparr>]\<rparr>] = [\<lparr>workout_name = ''Push'', workout_date = Some 86400000, exercises = [\<lparr>name = ''Bench''\<rparr>]\<rparr>, \<lparr>workout_name = ''Legs'', workout_date = Some 0, exercises = [\<lparr>name = ''Squat''\<rparr>]\<rparr>]"
proof -
  have nonblank: "trim ''SQ'' \<noteq> []"
    by (simp add: trim_def isWhiteSpace_def)
  have blank: "trim ''  '' = []"
    by (simp add: trim_def isWhiteSpace_def)
  have kept: "filteredWorkouts (\<lambda>t. if t = Some 0 then ''1/1/1970'' else ''1/2/1970'') ''SQ'' [\<lparr>workout_name = ''Push'', workout_date = Some 86400000, exercises = [\<lparr>name = ''Bench''\<rparr>]\<rparr>, \<lparr>workout_name = ''Legs'', workout_date = Some 0, exercises = [\<lparr>name = ''Squat''\<rparr>]\<rparr>] = [\<lparr>workout_name = ''Legs'', workout_date = Some 0, exercises = [\<lparr>name = ''Squat''\<rparr>]\<rparr>]"
    by code_simp
  have "\<forall>w \<in> set (filteredWorkouts (\<lambda>t. if t = Some 0 then ''1/1/1970'' else ''1/2/1970'') ''SQ'' [\<lparr>workout_name = ''Push'', workout_date = Some 86400000, exercises = [\<lparr>name = ''Bench''\<rparr>]\<rparr>, \<lparr>workout_name = ''Legs'', workout_date = Some 0, exercises = [\<lparr>name = ''Squat''\<rparr>]\<rparr>]). item_contains (\<lambda>t. if t = Some 0 then ''1/1/1970'' else ''1/2/1970'') ''SQ'' w"
    using nonblank filteredWorkouts_sound [of "''SQ''" "(\<lambda>t. if t = Some 0 then ''1/1/1970'' else ''1/2/1970'')" "[\<lparr>workout_name = ''Push'', workout_date = Some 86400000, exercises = [\<lparr>name = ''Bench''\<rparr>]\<rparr>, \<lparr>workout_name = ''Legs'', workout_date = Some 0, exercises = [\<lparr>name = ''Squat''\<rparr>]\<rparr>]"] by blast
  then have hit: "item_contains (\<lambda>t. if t = Some 0 then ''1/1/1970'' else ''1/2/1970'') ''SQ'' \<lparr>workout_name = ''Legs'', workout_date = Some 0, exercises = [\<lparr>name = ''Squat''\<rparr>]\<rparr>"
    unfolding kept by simp
  show ?thesis
    using nonblank blank kept hit
      filteredWorkouts_sound [of "''SQ''" "(\<lambda>t. if t = Some 0 then ''1/1/1970'' else ''1/2/1970'')" "[\<lparr>workout_name = ''Push'', workout_date = Some 86400000, exercises = [\<lparr>name = ''Bench''\<rparr>]\<rparr>, \<lparr>workout_name = ''Legs'', workout_date = Some 0, exercises = [\<lparr>name = ''Squat''\<rparr>]\<rparr>]"]
      filteredWorkouts_sound [of "''  ''" "(\<lambda>t. if t = Some 0 then ''1/1/1970'' else ''1/2/1970'')" "[\<lparr>workout_name = ''Push'', workout_date = Some 86400000, exercises = [\<lparr>name = ''Bench''\<rparr>]\<rparr>, \<lparr>workout_name = ''Legs'', workout_date = Some 0, exercises = [\<lparr>name = ''Squat''\<rparr>]\<rparr>]"]
    by blast
qed

section \<open>Properties of the session operations\<close>

lemma multiGet_two:
  "multiGet readable [k1, k2] st =
     (if readable then Resolved [(k1, st k1), (k2, st k2)] else Rejected)"
  by (simp add: multiGet_def)

lemma logout_removal_ok:
  "logout Write_ok s =
     (Resolved (),
      s\<lparr>storage := (storage s)(''auth_token'' := None, ''user'' := None),
        defaults_Authorization := None, token := None, user := None, loading := False\<rparr>)"
  by (simp add: logout_def multiRemove_def Let_def)

lemma logout_removal_fails:
  "logout (Write_fails st') s = (Rejected, s\<lparr>storage := st', loading := False\<rparr>)"
  by (simp add: logout_def multiRemove_def Let_def)


lemma login_persisted:
  "post em pw = Response (Login_data t uid un) \<Longrightarrow>
   login post js Write_ok em pw s =
     (Success,
      s\<lparr>error := [],
        storage := (storage s)(''auth_token'' \<mapsto> t,
                      ''user'' \<mapsto> js \<lparr>id' = uid, username = un, email = em\<rparr>),
        defaults_Authorization := Some (''Bearer '' @ t),
        token := Some t,
        user := Some \<lparr>id' = uid, username = un, email = em\<rparr>,
        loading := False\<rparr>)"
  by (simp add: login_def Let_def multiSet_def)

lemma login_write_fails:
  "post em pw = Response (Login_data t uid un) \<Longrightarrow>
   login post js (Write_fails st') em pw s =
     (Failed ''Login failed'',
      s\<lparr>error := ''Login failed'', storage := st', loading := False\<rparr>)"
  by (simp add: login_def Let_def multiSet_def or_else_def)

text \<open>
  Claim C1, as stated, fails: the boot effect restores the two keys independently and has
  no check that they come as a pair.  When storage holds a token and no user record, the
  effect completes with the token set and the user absent.
\<close>

theorem boot_token_without_user_counterexample:
  "fst (boot (\<lambda>j. Rejected) True (initial [''auth_token'' \<mapsto> ''abc''])) = Resolved () \<and>
   token (snd (boot (\<lambda>j. Rejected) True (initial [''auth_token'' \<mapsto> ''abc'']))) = Some ''abc'' \<and>
   user (snd (boot (\<lambda>j. Rejected) True (initial [''auth_token'' \<mapsto> ''abc'']))) = None"
  by (simp add: boot_def multiGet_two initial_def Let_def truthy_def)

text \<open>
  Claim C1, amended.  For every startup state of durable storage, the boot effect restores
  token and user independently of each other: afterwards the token is set exactly when the
  read succeeded and the stored token is a non-empty string (and then equals it), the user
  is set exactly when the read succeeded, the stored user text is non-empty and it parses
  to a record (and then equals the parsed record), and the loading flag is cleared.  So
  token and user are both set when storage holds a non-empty token and a well-formed user
  record, and both absent when it holds neither or cannot be read.
\<close>

theorem boot_restores_each_key:
  "token (snd (boot JSON_parse readable (initial st))) =
     (if readable \<and> truthy (st ''auth_token'') then st ''auth_token'' else None) \<and>
   user (snd (boot JSON_parse readable (initial st))) =
     (if readable \<and> truthy (st ''user'')
      then (case JSON_parse (the (st ''user'')) of Resolved u \<Rightarrow> u | Rejected \<Rightarrow> None)
      else None) \<and>
   \<not> loading (snd (boot JSON_parse readable (initial st)))"
  by (simp add: boot_def multiGet_two initial_def Let_def split: promise.splits)

theorem boot_restores_each_key_witness:
  "token (snd (boot (\<lambda>j. if j = ''u7'' then Resolved (Some \<lparr>id' = 7, username = ''ann'', email = ''ann@example.org''\<rparr>) else Rejected) True (initial [''auth_token'' \<mapsto> ''abc'', ''user'' \<mapsto> ''u7'']))) = Some ''abc'' \<and>
   user (snd (boot (\<lambda>j. if j = ''u7'' then Resolved (Some \<lparr>id' = 7, username = ''ann'', email = ''ann@example.org''\<rparr>) else Rejected) True (initial [''auth_token'' \<mapsto> ''abc'', ''user'' \<mapsto> ''u7''])))
     = Some \<lparr>id' = 7, username = ''ann'', email = ''ann@example.org''\<rparr> \<and>
   token (snd (boot (\<lambda>j. if j = ''u7'' then Resolved (Some \<lparr>id' = 7, username = ''ann'', email = ''ann@example.org''\<rparr>) else Rejected) True (initial Map.empty))) = None \<and>
   user (snd (boot (\<lambda>j. if j = ''u7'' then Resolved (Some \<lparr>id' = 7, username = ''ann'', email = ''ann@example.org''\<rparr>) else Rejected) True (initial Map.empty))) = None \<and>
   token (snd (boot (\<lambda>j. if j = ''u7'' then Resolved (Some \<lparr>id' = 7, username = ''ann'', email = ''ann@example.org''\<rparr>) else Rejected) False (initial [''auth_token'' \<mapsto> ''abc'', ''user'' \<mapsto> ''u7'']))) = None \<and>
   user (snd (boot (\<lambda>j. if j = ''u7'' then Resolved (Some \<lparr>id' = 7, username = ''ann'', email = ''ann@example.org''\<rparr>) else Rejected) False (initial [''auth_token'' \<mapsto> ''abc'', ''user'' \<mapsto> ''u7'']))) = None"
  using
    boot_restores_each_key [of "(\<lambda>j. if j = ''u7'' then Resolved (Some \<lparr>id' = 7, username = ''ann'', email = ''ann@example.org''\<rparr>) else Rejected)" True "[''auth_token'' \<mapsto> ''abc'', ''user'' \<mapsto> ''u7'']"]
    boot_restores_each_key [of "(\<lambda>j. if j = ''u7'' then Resolved (Some \<lparr>id' = 7, username = ''ann'', email = ''ann@example.org''\<rparr>) else Rejected)" True Map.empty]
    boot_restores_each_key [of "(\<lambda>j. if j = ''u7'' then Resolved (Some \<lparr>id' = 7, username = ''ann'', email = ''ann@example.org''\<rparr>) else Rejected)" False "[''auth_token'' \<mapsto> ''abc'', ''user'' \<mapsto> ''u7'']"]
  by (simp add: truthy_def)


text \<open>
  Claim C2, as stated, fails: \<open>logout\<close> has no \<open>catch\<close>.  From a signed-in state, when the
  removal from storage rejects, \<open>logout\<close> rejects to its caller and the default
  authorization header and the in-memory session stay as they were.
\<close>

theorem logout_removal_failure_counterexample:
  "fst (logout (Write_fails (storage \<lparr>user = Some \<lparr>id' = 7, username = ''ann'', email = ''ann@example.org''\<rparr>, token = Some ''abc'', loading = False, error = [], storage = [''auth_token'' \<mapsto> ''abc'', ''user'' \<mapsto> ''u7''], defaults_Authorization = Some ''Bearer abc''\<rparr>)) \<lparr>user = Some \<lparr>id' = 7, username = ''ann'', email = ''ann@example.org''\<rparr>, token = Some ''abc'', loading = False, error = [], storage = [''auth_token'' \<mapsto> ''abc'', ''user'' \<mapsto> ''u7''], defaults_Authorization = Some ''Bearer abc''\<rparr>) = Rejected \<and>
   defaults_Authorization (snd (logout (Write_fails (storage \<lparr>user = Some \<lparr>id' = 7, username = ''ann'', email = ''ann@example.org''\<rparr>, token = Some ''abc'', loading = False, error = [], storage = [''auth_token'' \<mapsto> ''abc'', ''user'' \<mapsto> ''u7''], defaults_Authorization = Some ''Bearer abc''\<rparr>)) \<lparr>user = Some \<lparr>id' = 7, username = ''ann'', email = ''ann@example.org''\<rparr>, token = Some ''abc'', loading = False, error = [], storage = [''auth_token'' \<mapsto> ''abc'', ''user'' \<mapsto> ''u7''], defaults_Authorization = Some ''Bearer abc''\<rparr>)) = Some ''Bearer abc'' \<and>
   token (snd (logout (Write_fails (storage \<lparr>user = Some \<lparr>id' = 7, username = ''ann'', email = ''ann@example.org''\<rparr>, token = Some ''abc'', loading = False, error = [], storage = [''auth_token'' \<mapsto> ''abc'', ''user'' \<mapsto> ''u7''], defaults_Authorization = Some ''Bearer abc''\<rparr>)) \<lparr>user = Some \<lparr>id' = 7, username = ''ann'', email = ''ann@example.org''\<rparr>, token = Some ''abc'', loading = False, error = [], storage = [''auth_token'' \<mapsto> ''abc'', ''user'' \<mapsto> ''u7''], defaults_Authorization = Some ''Bearer abc''\<rparr>)) = Some ''abc'' \<and>
   user (snd (logout (Write_fails (storage \<lparr>user = Some \<lparr>id' = 7, username = ''ann'', email = ''ann@example.org''\<rparr>, token = Some ''abc'', loading = False, error = [], storage = [''auth_token'' \<mapsto> ''abc'', ''user'' \<mapsto> ''u7''], defaults_Authorization = Some ''Bearer abc''\<rparr>)) \<lparr>user = Some \<lparr>id' = 7, username = ''ann'', email = ''ann@example.org''\<rparr>, token = Some ''abc'', loading = False, error = [], storage = [''auth_token'' \<mapsto> ''abc'', ''user'' \<mapsto> ''u7''], defaults_Authorization = Some ''Bearer abc''\<rparr>))
     = Some \<lparr>id' = 7, username = ''ann'', email = ''ann@example.org''\<rparr> \<and>
   storage (snd (logout (Write_fails (storage \<lparr>user = Some \<lparr>id' = 7, username = ''ann'', email = ''ann@example.org''\<rparr>, token = Some ''abc'', loading = False, error = [], storage = [''auth_token'' \<mapsto> ''abc'', ''user'' \<mapsto> ''u7''], defaults_Authorization = Some ''Bearer abc''\<rparr>)) \<lparr>user = Some \<lparr>id' = 7, username = ''ann'', email = ''ann@example.org''\<rparr>, token = Some ''abc'', loading = False, error = [], storage = [''auth_token'' \<mapsto> ''abc'', ''user'' \<mapsto> ''u7''], defaults_Authorization = Some ''Bearer abc''\<rparr>)) ''auth_token'' = Some ''abc''"
  by (simp add: logout_removal_fails)

text \<open>
  Claim C2, amended.  For every prior session state: when the removal from storage
  succeeds, \<open>logout\<close> returns normally, leaves durable storage without both keys
  (\<open>auth_token\<close>, \<open>user\<close>), removes the default authorization header and empties the
  in-memory session (token and user absent); when the removal fails, the error is not
  swallowed but reaches the caller, and the header and the in-memory session are left as
  they were.  The loading flag is cleared in both cases.
\<close>

theorem logout_outcomes:
  "fst (logout Write_ok s) = Resolved () \<and>
   storage (snd (logout Write_ok s)) ''auth_token'' = None \<and>
   storage (snd (logout Write_ok s)) ''user'' = None \<and>
   defaults_Authorization (snd (logout Write_ok s)) = None \<and>
   token (snd (logout Write_ok s)) = None \<and>
   user (snd (logout Write_ok s)) = None \<and>
   \<not> loading (snd (logout Write_ok s)) \<and>
   fst (logout (Write_fails st') s) = Rejected \<and>
   defaults_Authorization (snd (logout (Write_fails st') s)) = defaults_Authorization s \<and>
   token (snd (logout (Write_fails st') s)) = token s \<and>
   user (snd (logout (Write_fails st') s)) = user s \<and>
   \<not> loading (snd (logout (Write_fails st') s))"
  by (simp add: logout_removal_ok logout_removal_fails)



text \<open>
  Claim C5, as stated, fails when the write to durable storage rejects: the endpoint has
  returned a token and the identity fields, yet \<open>login\<close> returns
  \<open>{success: false, error: "Login failed"}\<close>.
\<close>

theorem login_write_failure_counterexample:
  "(\<lambda>e p. if p = ''pw1'' then Response (Login_data ''tok'' 7 ''ann'') else Request_failed (Some ''Invalid credentials'')) ''ann@example.org'' ''pw1'' = Response (Login_data ''tok'' 7 ''ann'') \<and>
   fst (login (\<lambda>e p. if p = ''pw1'' then Response (Login_data ''tok'' 7 ''ann'') else Request_failed (Some ''Invalid credentials'')) (\<lambda>u. username u) (Write_fails Map.empty) ''ann@example.org'' ''pw1'' (initial Map.empty))
     = Failed ''Login failed''"
  by (simp add: login_def Let_def multiSet_def or_else_def initial_def)

text \<open>
  Claim C5, amended.  Whenever the authentication endpoint returns a token and identity
  fields and the write to durable storage succeeds, \<open>login\<close> returns \<open>{success: true}\<close>,
  durable storage afterwards contains the new token and the serialised user record, the
  shared client's default authorization header is \<open>Bearer\<close> followed by that token, and the
  in-memory session holds the token and the user.  Success is declared only after the
  write has completed: if the write rejects, \<open>login\<close> returns
  \<open>{success: false, error: "Login failed"}\<close> and leaves the header and the in-memory
  session as they were.
\<close>

theorem login_success_after_persisting:
  assumes "post em pw = Response (Login_data t uid un)"
  shows "fst (login post js Write_ok em pw s) = Success \<and>
         storage (snd (login post js Write_ok em pw s)) ''auth_token'' = Some t \<and>
         storage (snd (login post js Write_ok em pw s)) ''user''
           = Some (js \<lparr>id' = uid, username = un, email = em\<rparr>) \<and>
         defaults_Authorization (snd (login post js Write_ok em pw s)) = Some (''Bearer '' @ t) \<and>
         token (snd (login post js Write_ok em pw s)) = Some t \<and>
         user (snd (login post js Write_ok em pw s))
           = Some \<lparr>id' = uid, username = un, email = em\<rparr> \<and>
         fst (login post js (Write_fails st') em pw s) = Failed ''Login failed'' \<and>
         defaults_Authorization (snd (login post js (Write_fails st') em pw s))
           = defaults_Authorization s \<and>
         token (snd (login post js (Write_fails st') em pw s)) = token s \<and>
         user (snd (login post js (Write_fails st') em pw s)) = user s \<and>
         (fst (login post js io em pw s) = Success) = (io = Write_ok)"
proof -
  note ok = login_persisted [of post em pw t uid un js s, OF assms]
  note ko = login_write_fails [of post em pw t uid un js _ s, OF assms]
  have "fst (login post js io em pw s) \<noteq> Success" if "io \<noteq> Write_ok"
    using that ko by (cases io) simp_all
  moreover have "fst (login post js Write_ok em pw s) = Success"
    by (simp add: ok)
  ultimately have "(fst (login post js io em pw s) = Success) = (io = Write_ok)"
    by blast
  then show ?thesis
    by (simp add: ok ko)
qed

theorem login_success_after_persisting_witness:
  "(\<lambda>e p. if p = ''pw1'' then Response (Login_data ''tok'' 7 ''ann'') else Request_failed (Some ''Invalid credentials'')) ''ann@example.org'' ''pw1'' = Response (Login_data ''tok'' 7 ''ann'') \<and>
   fst (login (\<lambda>e p. if p = ''pw1'' then Response (Login_data ''tok'' 7 ''ann'') else Request_failed (Some ''Invalid credentials'')) (\<lambda>u. username u) Write_ok ''ann@example.org'' ''pw1'' (initial Map.empty)) = Success \<and>
   storage (snd (login (\<lambda>e p. if p = ''pw1'' then Response (Login_data ''tok'' 7 ''ann'') else Request_failed (Some ''Invalid credentials'')) (\<lambda>u. username u) Write_ok ''ann@example.org'' ''pw1'' (initial Map.empty))) ''auth_token''
     = Some ''tok'' \<and>
   storage (snd (login (\<lambda>e p. if p = ''pw1'' then Response (Login_data ''tok'' 7 ''ann'') else Request_failed (Some ''Invalid credentials'')) (\<lambda>u. username u) Write_ok ''ann@example.org'' ''pw1'' (initial Map.empty))) ''user''
     = Some ''ann'' \<and>
   defaults_Authorization (snd (login (\<lambda>e p. if p = ''pw1'' then Response (Login_data ''tok'' 7 ''ann'') else Request_failed (Some ''Invalid credentials'')) (\<lambda>u. username u) Write_ok ''ann@example.org'' ''pw1'' (initial Map.empty)))
     = Some ''Bearer tok''"
proof -
  have accepted:
    "(\<lambda>e p. if p = ''pw1'' then Response (Login_data ''tok'' 7 ''ann'') else Request_failed (Some ''Invalid credentials'')) ''ann@example.org'' ''pw1'' = Response (Login_data ''tok'' 7 ''ann'')"
    by simp
  show ?thesis
    using accepted
      login_success_after_persisting
        [of "(\<lambda>e p. if p = ''pw1'' then Response (Login_data ''tok'' 7 ''ann'') else Request_failed (Some ''Invalid credentials''))" "''ann@example.org''" "''pw1''" "''tok''" 7 "''ann''"
            "(\<lambda>u. username u)" "initial Map.empty" Map.empty Write_ok]
    by simp
qed

text \<open>
  Claim C9.  For every outgoing request, the interceptor reads \<open>auth_token\<close> from durable
  storage at request time; when the read yields a stored token (a non-empty string), the
  request leaves with \<open>Authorization\<close> set to \<open>Bearer\<close> followed by that stored value,
  whatever header the configuration carried before (such as the cached default).  When
  nothing is stored the configuration is passed on unchanged.
\<close>

theorem request_interceptor_attaches_stored_token:
  "(st ''auth_token'' = Some t \<and> t \<noteq> [] \<longrightarrow>
      request_interceptor True st config
        = Resolved (config\<lparr>Authorization := Some (''Bearer '' @ t)\<rparr>)) \<and>
   (st ''auth_token'' = None \<longrightarrow> request_interceptor True st config = Resolved config)"
  by (simp add: request_interceptor_def getItem_def truthy_def)

theorem request_interceptor_attaches_stored_token_witness:
  "[''auth_token'' \<mapsto> ''fresh''] ''auth_token'' = Some ''fresh'' \<and>
   ''fresh'' \<noteq> [] \<and>
   request_interceptor True [''auth_token'' \<mapsto> ''fresh''] \<lparr>Authorization = Some ''Bearer stale''\<rparr>
     = Resolved \<lparr>Authorization = Some ''Bearer fresh''\<rparr> \<and>
   Map.empty ''auth_token'' = (None :: string option) \<and>
   request_interceptor True Map.empty \<lparr>Authorization = Some ''Bearer stale''\<rparr>
     = Resolved \<lparr>Authorization = Some ''Bearer stale''\<rparr>"
  using
    request_interceptor_attaches_stored_token
      [of "[''auth_token'' \<mapsto> ''fresh'']" "''fresh''" "\<lparr>Authorization = Some ''Bearer stale''\<rparr>"]
    request_interceptor_attaches_stored_token
      [of "Map.empty" "''fresh''" "\<lparr>Authorization = Some ''Bearer stale''\<rparr>"]
  by simp

section \<open>Properties of calculateProgress\<close>

text \<open>
  Two familiar facts of binary64 arithmetic, as a check of the rounding: the number \<open>0.1\<close>
  is \<open>3602879701896397 / 2 ^ 55\<close>, and \<open>0.1 + 0.2\<close> is not the number \<open>0.3\<close>.
\<close>

lemma binary64_one_tenth: "binary64 (1 / 10) = 3602879701896397 / 2 ^ 55"
  by code_simp

lemma binary64_tenths: "js_add (binary64 (1 / 10)) (binary64 (2 / 10)) \<noteq> binary64 (3 / 10)"
  by code_simp

text \<open>
  Both functions read their arguments only through the conditions they test, so each
  argument can be replaced by a fixed representative with the same conditions.  On the
  representatives the sums are computed outright.
\<close>

lemma calculateProgress3_canon:
  "calculateProgress3 n t es =
     calculateProgress3 (if n = [] then [] else ''x'') (if truthy t then Some ''x'' else None)
       (if es = [] then [] else [\<lparr>sets = []\<rparr>])"
  by (simp add: calculateProgress3_def truthy_def)

lemma calculateProgress3_values:
  "calculateProgress3 [] None [] = 0"
  "calculateProgress3 ''x'' None [] = 5944751508129055 / 18014398509481984"
  "calculateProgress3 [] (Some ''x'') [] = 5944751508129055 / 18014398509481984"
  "calculateProgress3 [] None [\<lparr>sets = []\<rparr>] = 6124895493223875 / 18014398509481984"
  "calculateProgress3 ''x'' (Some ''x'') [] = 5944751508129055 / 9007199254740992"
  "calculateProgress3 ''x'' None [\<lparr>sets = []\<rparr>] = 6034823500676465 / 9007199254740992"
  "calculateProgress3 [] (Some ''x'') [\<lparr>sets = []\<rparr>] = 6034823500676465 / 9007199254740992"
  "calculateProgress3 ''x'' (Some ''x'') [\<lparr>sets = []\<rparr>] = 1"
  by code_simp+

lemma calculateProgress4_canon:
  "calculateProgress4 n t es =
     calculateProgress4 (if n = [] then [] else ''x'') (if truthy t then Some ''x'' else None)
       (if es = [] then []
        else if list_ex (\<lambda>e. list_ex (\<lambda>s. weight s \<noteq> [] \<and> reps s \<noteq> []) (sets e)) es
        then [\<lparr>sets = [\<lparr>weight = ''1'', reps = ''1''\<rparr>]\<rparr>]
        else [\<lparr>sets = []\<rparr>])"
  by (simp add: calculateProgress4_def truthy_def)

lemma calculateProgress4_values:
  "calculateProgress4 [] None [] = 0"
  "calculateProgress4 ''x'' None [] = 1 / 4"
  "calculateProgress4 [] (Some ''x'') [] = 1 / 4"
  "calculateProgress4 ''x'' (Some ''x'') [] = 1 / 2"
  "calculateProgress4 [] None [\<lparr>sets = []\<rparr>] = 1 / 4"
  "calculateProgress4 ''x'' None [\<lparr>sets = []\<rparr>] = 1 / 2"
  "calculateProgress4 [] (Some ''x'') [\<lparr>sets = []\<rparr>] = 1 / 2"
  "calculateProgress4 ''x'' (Some ''x'') [\<lparr>sets = []\<rparr>] = 3 / 4"
  "calculateProgress4 [] None [\<lparr>sets = [\<lparr>weight = ''1'', reps = ''1''\<rparr>]\<rparr>] = 1 / 2"
  "calculateProgress4 ''x'' None [\<lparr>sets = [\<lparr>weight = ''1'', reps = ''1''\<rparr>]\<rparr>] = 3 / 4"
  "calculateProgress4 [] (Some ''x'') [\<lparr>sets = [\<lparr>weight = ''1'', reps = ''1''\<rparr>]\<rparr>] = 3 / 4"
  "calculateProgress4 ''x'' (Some ''x'') [\<lparr>sets = [\<lparr>weight = ''1'', reps = ''1''\<rparr>]\<rparr>] = 1"
  by code_simp+

lemma calculateProgress4_quarters:
  "calculateProgress4 n t es =
     of_nat (satisfied [n \<noteq> [], truthy t, es \<noteq> [],
        list_ex (\<lambda>e. list_ex (\<lambda>s. weight s \<noteq> [] \<and> reps s \<noteq> []) (sets e)) es]) / 4"
  by (subst calculateProgress4_canon) (auto simp add: calculateProgress4_values satisfied_def)

lemma calculateProgress4_range:
  "0 \<le> calculateProgress4 n t es \<and> calculateProgress4 n t es \<le> 1"
  by (subst (1 2) calculateProgress4_canon) (simp add: calculateProgress4_values)

text \<open>
  The numbers \<open>0.33\<close>, \<open>0.34\<close>, \<open>0.66\<close> and \<open>0.67\<close>.  Adding the shares of the satisfied
  conditions in JavaScript gives the number written as their decimal sum.
\<close>

lemma binary64_shares:
  "binary64 0 = 0"
  "binary64 (33 / 100) = 5944751508129055 / 18014398509481984"
  "binary64 (34 / 100) = 6124895493223875 / 18014398509481984"
  "binary64 (66 / 100) = 5944751508129055 / 9007199254740992"
  "binary64 (67 / 100) = 6034823500676465 / 9007199254740992"
  "binary64 (100 / 100) = 1"
  by code_simp+

lemma calculateProgress3_decimal:
  "calculateProgress3 n t es =
     binary64 (of_nat ((if n \<noteq> [] then 33 else 0) + (if truthy t then 33 else 0) +
                       (if es \<noteq> [] then 34 else 0)) / 100)"
  using binary64_shares
  by (subst calculateProgress3_canon) (simp add: calculateProgress3_values)

lemma calculateProgress3_facts:
  "0 \<le> calculateProgress3 n t es \<and> calculateProgress3 n t es \<le> 1 \<and>
   (satisfied [n \<noteq> [], truthy t, es \<noteq> []] = 0 \<longrightarrow> calculateProgress3 n t es = 0) \<and>
   (satisfied [n \<noteq> [], truthy t, es \<noteq> []] = 3 \<longrightarrow> calculateProgress3 n t es = 1) \<and>
   (satisfied [n \<noteq> [], truthy t, es \<noteq> []] = 1 \<longrightarrow>
      \<bar>calculateProgress3 n t es - 1 / 3\<bar> \<le> 1 / 100)"
  by (subst (1 2 3 4 5) calculateProgress3_canon)
     (simp add: calculateProgress3_values satisfied_def)

text \<open>
  Claim C8, as stated, fails for the three-step version: its shares are not equal.  With
  only the name filled in the score is the number \<open>0.33\<close>, with only an exercise added it is
  the number \<open>0.34\<close>; one condition is satisfied in each case.
\<close>

theorem calculateProgress3_unequal_shares_counterexample:
  "satisfied [''Leg day'' \<noteq> [], truthy None, ([] :: draft_exercise list) \<noteq> []] = 1 \<and>
   calculateProgress3 ''Leg day'' None [] = 5944751508129055 / 18014398509481984 \<and>
   satisfied [([] :: string) \<noteq> [], truthy None, [\<lparr>sets = []\<rparr>] \<noteq> []] = 1 \<and>
   calculateProgress3 [] None [\<lparr>sets = []\<rparr>] = 6124895493223875 / 18014398509481984 \<and>
   calculateProgress3 ''Leg day'' None [] \<noteq> calculateProgress3 [] None [\<lparr>sets = []\<rparr>]"
  by code_simp

text \<open>
  Claim C8, amended.  In the four-step version every satisfied condition contributes
  exactly 0.25: the score is the number of satisfied conditions divided by four, so it lies
  in the closed range from 0 to 1, is exactly 0.0 with no condition satisfied and exactly
  1.0 with all four.  In the three-step version the shares are 0.33 for the name, 0.33 for
  the template and 0.34 for the exercises: for every combination of conditions the score
  is the number written as the decimal sum of the shares of the satisfied conditions (0,
  0.33, 0.34, 0.66, 0.67 or 1).  So it lies in the closed range from 0 to 1, it is exactly
  0.0 with no condition satisfied, exactly 1.0 with all three, and with one of the three
  it is within 0.01 of one third.
\<close>

theorem calculateProgress_scores:
  "calculateProgress4 n t es =
     of_nat (satisfied [n \<noteq> [], truthy t, es \<noteq> [],
        list_ex (\<lambda>e. list_ex (\<lambda>s. weight s \<noteq> [] \<and> reps s \<noteq> []) (sets e)) es]) / 4 \<and>
   0 \<le> calculateProgress4 n t es \<and> calculateProgress4 n t es \<le> 1 \<and>
   calculateProgress3 n t es =
     binary64 (of_nat ((if n \<noteq> [] then 33 else 0) + (if truthy t then 33 else 0) +
                       (if es \<noteq> [] then 34 else 0)) / 100) \<and>
   0 \<le> calculateProgress3 n t es \<and> calculateProgress3 n t es \<le> 1 \<and>
   (satisfied [n \<noteq> [], truthy t, es \<noteq> []] = 0 \<longrightarrow> calculateProgress3 n t es = 0) \<and>
   (satisfied [n \<noteq> [], truthy t, es \<noteq> []] = 3 \<longrightarrow> calculateProgress3 n t es = 1) \<and>
   (satisfied [n \<noteq> [], truthy t, es \<noteq> []] = 1 \<longrightarrow>
      \<bar>calculateProgress3 n t es - 1 / 3\<bar> \<le> 1 / 100)"
  using calculateProgress4_quarters [of n t es] calculateProgress4_range [of n t es]
    calculateProgress3_decimal [of n t es] calculateProgress3_facts [of n t es]
  by blast

theorem calculateProgress_scores_witness:
  "satisfied [([] :: string) \<noteq> [], truthy None, ([] :: draft_exercise list) \<noteq> []] = 0 \<and>
   calculateProgress3 [] None [] = 0 \<and>
   satisfied [''Leg day'' \<noteq> [], truthy (Some ''push''), [\<lparr>sets = [\<lparr>weight = ''60'', reps = ''8''\<rparr>]\<rparr>] \<noteq> []] = 3 \<and>
   calculateProgress3 ''Leg day'' (Some ''push'') [\<lparr>sets = [\<lparr>weight = ''60'', reps = ''8''\<rparr>]\<rparr>] = 1 \<and>
   satisfied [''Leg day'' \<noteq> [], truthy None, ([] :: draft_exercise list) \<noteq> []] = 1 \<and>
   \<bar>calculateProgress3 ''Leg day'' None [] - 1 / 3\<bar> \<le> 1 / 100 \<and>
   calculateProgress3 [] (Some ''push'') [\<lparr>sets = [\<lparr>weight = ''60'', reps = ''8''\<rparr>]\<rparr>] = binary64 (67 / 100) \<and>
   calculateProgress4 ''Leg day'' (Some ''push'') [\<lparr>sets = [\<lparr>weight = ''60'', reps = ''8''\<rparr>]\<rparr>] = 1"
proof -
  have none: "satisfied [([] :: string) \<noteq> [], truthy None, ([] :: draft_exercise list) \<noteq> []] = 0"
    by (simp add: satisfied_def truthy_def)
  have all3: "satisfied [''Leg day'' \<noteq> [], truthy (Some ''push''), [\<lparr>sets = [\<lparr>weight = ''60'', reps = ''8''\<rparr>]\<rparr>] \<noteq> []] = 3"
    by (simp add: satisfied_def truthy_def)
  have one: "satisfied [''Leg day'' \<noteq> [], truthy None, ([] :: draft_exercise list) \<noteq> []] = 1"
    by (simp add: satisfied_def truthy_def)
  have all4: "satisfied [''Leg day'' \<noteq> [], truthy (Some ''push''), [\<lparr>sets = [\<lparr>weight = ''60'', reps = ''8''\<rparr>]\<rparr>] \<noteq> [],
      list_ex (\<lambda>e. list_ex (\<lambda>s. weight s \<noteq> [] \<and> reps s \<noteq> []) (sets e)) [\<lparr>sets = [\<lparr>weight = ''60'', reps = ''8''\<rparr>]\<rparr>]] = 4"
    by (simp add: satisfied_def truthy_def)
  have four: "calculateProgress4 ''Leg day'' (Some ''push'') [\<lparr>sets = [\<lparr>weight = ''60'', reps = ''8''\<rparr>]\<rparr>] = 1"
    using calculateProgress_scores [of "''Leg day''" "Some ''push''" "[\<lparr>sets = [\<lparr>weight = ''60'', reps = ''8''\<rparr>]\<rparr>]"]
    unfolding all4 by simp
  have two: "calculateProgress3 [] (Some ''push'') [\<lparr>sets = [\<lparr>weight = ''60'', reps = ''8''\<rparr>]\<rparr>] = binary64 (67 / 100)"
    using calculateProgress_scores [of "[]" "Some ''push''" "[\<lparr>sets = [\<lparr>weight = ''60'', reps = ''8''\<rparr>]\<rparr>]"]
    by (simp add: truthy_def)
  show ?thesis
    using none all3 one four two
      calculateProgress_scores [of "[]" None "[]"]
      calculateProgress_scores [of "''Leg day''" "Some ''push''" "[\<lparr>sets = [\<lparr>weight = ''60'', reps = ''8''\<rparr>]\<rparr>]"]
      calculateProgress_scores [of "''Leg day''" None "[]"]
    by blast
qed

end
